theory Spec2Isabelle
  imports Complex_Main
begin

section \<open>Python values used by solar\_banner.py\<close>

text \<open>
  The script raises three kinds of exception on the paths modelled here: \<open>ValueError\<close>
  (\<open>float\<close> of text that is no number, \<open>int\<close> of a NaN), \<open>OverflowError\<close>
  (\<open>int\<close> of an infinity) and the explicit \<open>SystemExit\<close> of \<open>main\<close>.
  A computation that can raise returns \<open>exn + 'a\<close>, with \<open>Inl\<close> the exception.
\<close>

datatype exn = ValueError | OverflowError | SystemExit string

text \<open>
  A Python \<open>float\<close> is a finite value with a sign bit (so that \<open>-0.0\<close> is a value of
  its own), an infinity or a NaN. The magnitude of a finite value is a real number: every
  binary64 value is one, so a statement about all magnitudes covers all doubles.
\<close>

datatype pyfloat = Finite bool real | Infinity bool | NaN

fun fval :: "pyfloat \<Rightarrow> real" where
  "fval (Finite s m) = (if s then - m else m)"
| "fval (Infinity s) = 0"
| "fval NaN = 0"

text \<open>\<open>x < c\<close> and \<open>x >= c\<close> for a float \<open>x\<close> and an integer constant \<open>c\<close>: Python
  compares the exact values, and every comparison with a NaN is false.\<close>

fun float_lt :: "pyfloat \<Rightarrow> int \<Rightarrow> bool" where
  "float_lt (Finite s m) c = (fval (Finite s m) < of_int c)"
| "float_lt (Infinity s) c = s"
| "float_lt NaN c = False"

fun float_ge :: "pyfloat \<Rightarrow> int \<Rightarrow> bool" where
  "float_ge (Finite s m) c = (of_int c \<le> fval (Finite s m))"
| "float_ge (Infinity s) c = (\<not> s)"
| "float_ge NaN c = False"

text \<open>\<open>x <= y\<close> on two floats.\<close>

fun float_le :: "pyfloat \<Rightarrow> pyfloat \<Rightarrow> bool" where
  "float_le NaN y = False"
| "float_le x NaN = False"
| "float_le (Infinity s) y = (s \<or> y = Infinity False)"
| "float_le (Finite s m) (Infinity t) = (\<not> t)"
| "float_le (Finite s m) (Finite t n) = (fval (Finite s m) \<le> fval (Finite t n))"

subsection \<open>Text\<close>

text \<open>
  A Python string is modelled by a \<open>string\<close>, one \<open>char\<close> for each character, so the
  model covers text whose code points are below 256 (Latin-1); the text of the feed is of
  this type. In this range the white space that \<open>str.strip\<close> removes is 9 to 13, 28 to 32,
  U+0085 and U+00A0, and the only decimal digits are 0 to 9. \<open>upper_char\<close> changes the
  letters a to z only: Python's \<open>upper\<close> also changes letters from U+00B5 on, none of them
  to A, B, C or M, so the letter tests of the script are decided as Python decides them.
\<close>

definition is_space :: "char \<Rightarrow> bool" where
  "is_space c =
     (let n = (of_char c :: nat) in
      (9 \<le> n \<and> n \<le> 13) \<or> (28 \<le> n \<and> n \<le> 32) \<or> n = 133 \<or> n = 160)"

definition strip :: "string \<Rightarrow> string" where
  "strip s = rev (dropWhile is_space (rev (dropWhile is_space s)))"

definition upper_char :: "char \<Rightarrow> char" where
  "upper_char c = (let n = (of_char c :: nat) in
     if 97 \<le> n \<and> n \<le> 122 then char_of (n - 32) else c)"

definition lower_char :: "char \<Rightarrow> char" where
  "lower_char c = (let n = (of_char c :: nat) in
     if 65 \<le> n \<and> n \<le> 90 then char_of (n + 32) else c)"

subsection \<open>Decimal numerals\<close>

definition is_digit :: "char \<Rightarrow> bool" where
  "is_digit c = (let n = (of_char c :: int) in 48 \<le> n \<and> n \<le> 57)"

definition digit_val :: "char \<Rightarrow> int" where
  "digit_val c = of_char c - 48"

definition digit_char :: "int \<Rightarrow> char" where
  "digit_char d = char_of (48 + d)"

text \<open>The value of a string of digits, most significant first.\<close>

definition int_of_digits :: "string \<Rightarrow> int" where
  "int_of_digits ds = foldl (\<lambda>acc c. 10 * acc + digit_val c) 0 ds"

text \<open>\<open>str(n)\<close> for an integer: the decimal digits of \<open>n \<ge> 0\<close>, and a minus sign before
  those of \<open>- n\<close> otherwise.\<close>

function str_nat :: "int \<Rightarrow> string" where
  "str_nat n = (if n < 10 then [digit_char n] else str_nat (n div 10) @ [digit_char (n mod 10)])"
  by pat_completeness auto
termination
  by (relation "measure nat") auto

declare str_nat.simps [simp del]

definition str_int :: "int \<Rightarrow> string" where
  "str_int i = (if i < 0 then CHR ''-'' # str_nat (- i) else str_nat i)"

subsection \<open>Rounding to binary64\<close>

text \<open>The number of bits of a positive integer:
  \<open>2 ^ (bit_length n - 1) \<le> n < 2 ^ bit_length n\<close> for \<open>n > 0\<close>.\<close>

function bit_length :: "int \<Rightarrow> nat" where
  "bit_length n = (if n \<le> 0 then 0 else Suc (bit_length (n div 2)))"
  by pat_completeness auto
termination
  by (relation "measure nat") auto

declare bit_length.simps [simp del]

text \<open>Rounding the fraction \<open>n / d\<close> (with \<open>0 \<le> n\<close> and \<open>0 < d\<close>) to the nearest integer,
  ties to even.\<close>

definition round_half_even_div :: "int \<Rightarrow> int \<Rightarrow> int" where
  "round_half_even_div n d =
     (let q = n div d; r = n mod d in
      if 2 * r < d then q
      else if d < 2 * r then q + 1
      else if even q then q else q + 1)"

text \<open>Is \<open>2 ^ k \<le> n / d\<close>?\<close>

definition ge_pow2 :: "int \<Rightarrow> int \<Rightarrow> int \<Rightarrow> bool" where
  "ge_pow2 n d k = (if 0 \<le> k then d * 2 ^ nat k \<le> n else d \<le> n * 2 ^ nat (- k))"

text \<open>
  The binary64 value nearest to the positive fraction \<open>n / d\<close> (ties to even): with
  \<open>e = \<lfloor>log\<^sub>2 (n / d)\<rfloor>\<close>, the spacing of the doubles around it is \<open>2 ^ p\<close> for
  \<open>p = max e (-1022) - 52\<close>, and the result is \<open>m * 2 ^ p\<close> for the rounded quotient \<open>m\<close>.
  \<open>None\<close> is an overflow, a result of \<open>2 ^ 1024\<close> or more.
\<close>

definition round_double :: "int \<Rightarrow> int \<Rightarrow> real option" where
  "round_double n d =
     (if n = 0 then Some 0
      else
        let d0 = int (bit_length n) - int (bit_length d);
            e = (if ge_pow2 n d d0 then d0 else d0 - 1);
            p = max e (- 1022) - 52;
            m = (if 0 \<le> p then round_half_even_div n (d * 2 ^ nat p)
                 else round_half_even_div (n * 2 ^ nat (- p)) d)
        in if 971 < p \<or> (p = 971 \<and> 2 ^ 53 \<le> m) then None
           else if 0 \<le> p then Some (of_int (m * 2 ^ nat p))
           else Some (of_int m / of_int (2 ^ nat (- p))))"

subsection \<open>The built-ins \<open>float\<close>, \<open>int\<close> and the format \<open>.1f\<close>\<close>

text \<open>
  Underscores in the text of a number: each one must stand between two digits. The
  function returns the text without them, or \<open>None\<close>. \<open>prev\<close> is the character before.
\<close>

fun drop_underscores :: "char \<Rightarrow> string \<Rightarrow> string option" where
  "drop_underscores prev [] = (if prev = CHR ''_'' then None else Some [])"
| "drop_underscores prev (c # cs) =
     (if c = CHR ''_'' then
        (if is_digit prev then drop_underscores c cs else None)
      else if prev = CHR ''_'' \<and> \<not> is_digit c then None
      else map_option ((#) c) (drop_underscores c cs))"

definition split_sign :: "string \<Rightarrow> bool \<times> string" where
  "split_sign s =
     (case s of
        [] \<Rightarrow> (False, [])
      | c # cs \<Rightarrow> if c = CHR ''-'' then (True, cs)
                  else if c = CHR ''+'' then (False, cs) else (False, s))"

text \<open>The exponent part: nothing, or \<open>e\<close> or \<open>E\<close>, an optional sign and at least one
  digit, up to the end of the text.\<close>

definition parse_exponent :: "string \<Rightarrow> int option" where
  "parse_exponent s =
     (case s of
        [] \<Rightarrow> Some 0
      | c # cs \<Rightarrow>
          if c = CHR ''e'' \<or> c = CHR ''E'' then
            (let (neg, ds) = split_sign cs in
             if ds \<noteq> [] \<and> list_all is_digit ds then
               Some (if neg then - int_of_digits ds else int_of_digits ds)
             else None)
          else None)"

text \<open>The fraction after the integer digits: a point and digits, or nothing. The result
  is the fraction digits and the rest of the text.\<close>

definition split_fraction :: "string \<Rightarrow> string \<times> string" where
  "split_fraction r1 =
     (case r1 of
        [] \<Rightarrow> ([], [])
      | c # t \<Rightarrow> if c = CHR ''.'' then (takeWhile is_digit t, dropWhile is_digit t)
                 else ([], r1))"

text \<open>The binary64 value nearest to \<open>n * 10 ^ e10\<close> for \<open>n \<ge> 0\<close>; \<open>None\<close> is an overflow.\<close>

definition decimal_value :: "int \<Rightarrow> int \<Rightarrow> real option" where
  "decimal_value n e10 =
     (if 0 \<le> e10 then round_double (n * 10 ^ nat e10) 1
      else round_double n (10 ^ nat (- e10)))"

text \<open>The decimal number without its sign: digits, an optional point and digits, with
  at least one digit in all, then the exponent. The result is the binary64 value nearest
  to the decimal value, an infinity when that overflows.\<close>

definition parse_decimal :: "bool \<Rightarrow> string \<Rightarrow> exn + pyfloat" where
  "parse_decimal neg s =
     (let ip = takeWhile is_digit s;
          (fp, r2) = split_fraction (dropWhile is_digit s)
      in if ip = [] \<and> fp = [] then Inl ValueError
         else case parse_exponent r2 of
                None \<Rightarrow> Inl ValueError
              | Some ex \<Rightarrow>
                  (case decimal_value (int_of_digits (ip @ fp)) (ex - int (length fp)) of
                     None \<Rightarrow> Inr (Infinity neg)
                   | Some m \<Rightarrow> Inr (Finite neg m)))"

text \<open>
  \<open>float(s)\<close> for a string. First every character above 127 is replaced: white space by
  a blank, a decimal digit by its ASCII digit (there is none below 256), and at any other
  character the text ends with a question mark. Then the white space of C (9 to 13 and
  the blank, not 28 to 31) is dropped at both ends, underscores between digits are
  dropped, and the rest is a signed decimal number, \<open>inf\<close>, \<open>infinity\<close> or \<open>nan\<close> in any
  case. Anything else raises \<open>ValueError\<close>.
\<close>

fun to_ascii :: "string \<Rightarrow> string" where
  "to_ascii [] = []"
| "to_ascii (c # cs) =
     (if (of_char c :: nat) \<le> 127 then c # to_ascii cs
      else if is_space c then CHR '' '' # to_ascii cs
      else ''?'')"

definition is_c_space :: "char \<Rightarrow> bool" where
  "is_c_space c = (let n = (of_char c :: nat) in (9 \<le> n \<and> n \<le> 13) \<or> n = 32)"

definition float_strip :: "string \<Rightarrow> string" where
  "float_strip s = rev (dropWhile is_c_space (rev (dropWhile is_c_space s)))"

definition py_float :: "string \<Rightarrow> exn + pyfloat" where
  "py_float s =
     (case drop_underscores (CHR 0x00) (float_strip (to_ascii s)) of
        None \<Rightarrow> Inl ValueError
      | Some t \<Rightarrow>
          (let (neg, u) = split_sign t; l = map lower_char u in
           if l = ''inf'' \<or> l = ''infinity'' then Inr (Infinity neg)
           else if l = ''nan'' then Inr NaN
           else parse_decimal neg u))"

text \<open>\<open>float(s or 0)\<close>: the empty string is false, and \<open>float(0)\<close> is \<open>0.0\<close>.\<close>

definition float_or_0 :: "string \<Rightarrow> exn + pyfloat" where
  "float_or_0 s = (if s = [] then Inr (Finite False 0) else py_float s)"

text \<open>\<open>int(x)\<close> for a float: truncation towards zero; an infinity and a NaN raise.\<close>

definition trunc :: "real \<Rightarrow> int" where
  "trunc x = (if x < 0 then \<lceil>x\<rceil> else \<lfloor>x\<rfloor>)"

fun py_int :: "pyfloat \<Rightarrow> exn + int" where
  "py_int (Finite s m) = Inr (trunc (fval (Finite s m)))"
| "py_int (Infinity s) = Inl OverflowError"
| "py_int NaN = Inl ValueError"

text \<open>Rounding a real number to the nearest integer, ties to even.\<close>

definition round_half_even :: "real \<Rightarrow> int" where
  "round_half_even x =
     (let f = \<lfloor>x\<rfloor>; d = x - of_int f in
      if d < 1 / 2 then f else if 1 / 2 < d then f + 1 else if even f then f else f + 1)"

text \<open>The format \<open>{x:.1f}\<close>: the sign, the integer part and one decimal digit of the
  magnitude rounded to tenths; \<open>inf\<close> and \<open>nan\<close> for the values that are no numbers.\<close>

fun format_1f :: "pyfloat \<Rightarrow> string" where
  "format_1f (Finite s m) =
     (let n = round_half_even (m * 10) in
      (if s then ''-'' else '''') @ str_nat (n div 10) @ ''.'' @ [digit_char (n mod 10)])"
| "format_1f (Infinity s) = (if s then ''-inf'' else ''inf'')"
| "format_1f NaN = ''nan''"

section \<open>The classifiers\<close>

definition classify_sfi :: "pyfloat \<Rightarrow> string \<times> string" where
  "classify_sfi sfi =
     (if float_lt sfi 80 then (''schwache obere KW-Baender'', ''weak upper HF bands'')
      else if float_lt sfi 120 then (''gute 20-15m Bedingungen'', ''good 20-15m conditions'')
      else if float_lt sfi 160 then
        (''sehr gute 20-10m Bedingungen'', ''very good 20-10m conditions'')
      else (''exzellente 20-10m Bedingungen'', ''excellent 20-10m conditions''))"

definition classify_k :: "int \<Rightarrow> string \<times> string" where
  "classify_k k =
     (if k \<le> 1 then (''Magnetfeld ruhig'', ''geomagnetic field quiet'')
      else if k \<le> 3 then (''Magnetfeld leicht unruhig'', ''geomagnetic field unsettled'')
      else if k = 4 then (''Magnetfeld gestoert'', ''geomagnetic field active'')
      else if k \<le> 5 then
        (''geomagnetischer Sturm (K>=5)'', ''minor geomagnetic storm (K>=5)'')
      else (''starker geomagnetischer Sturm'', ''major geomagnetic storm''))"

definition classify_aurora :: "pyfloat \<Rightarrow> string \<times> string" where
  "classify_aurora a =
     (if float_lt a 5 then (''Aurora-DX unwahrscheinlich'', ''Aurora DX unlikely'')
      else if float_lt a 7 then (''moegliche Aurora-Aktivitaet'', ''possible auroral activity'')
      else (''hohe Aurora-Wahrscheinlichkeit'', ''high auroral probability''))"

definition classify_xray :: "string \<Rightarrow> string \<times> string" where
  "classify_xray xray_str =
     (case xray_str of
        [] \<Rightarrow> (''X-Ray Hintergrund ruhig'', ''low X-ray background'')
      | c # _ \<Rightarrow>
          (let level = upper_char c in
           if level = CHR ''A'' \<or> level = CHR ''B'' then
             (''X-Ray Hintergrund ruhig'', ''low X-ray background'')
           else if level = CHR ''C'' then (''C-Flare Aktivitaet'', ''C-flare activity'')
           else if level = CHR ''M'' then
             (''M-Flare - kurzzeitige HF-Daempfung moeglich'', ''M-flare - short HF fade possible'')
           else (''X-Flare - HF-Blackouts moeglich'', ''X-flare - HF blackouts possible'')))"

text \<open>The phrase pairs, named after the bands of the ladders.\<close>

abbreviation "sfi_weak \<equiv> (''schwache obere KW-Baender'', ''weak upper HF bands'')"
abbreviation "sfi_good \<equiv> (''gute 20-15m Bedingungen'', ''good 20-15m conditions'')"
abbreviation "sfi_very_good \<equiv>
  (''sehr gute 20-10m Bedingungen'', ''very good 20-10m conditions'')"
abbreviation "sfi_excellent \<equiv>
  (''exzellente 20-10m Bedingungen'', ''excellent 20-10m conditions'')"

abbreviation "k_quiet \<equiv> (''Magnetfeld ruhig'', ''geomagnetic field quiet'')"
abbreviation "k_unsettled \<equiv> (''Magnetfeld leicht unruhig'', ''geomagnetic field unsettled'')"
abbreviation "k_active \<equiv> (''Magnetfeld gestoert'', ''geomagnetic field active'')"
abbreviation "k_minor_storm \<equiv>
  (''geomagnetischer Sturm (K>=5)'', ''minor geomagnetic storm (K>=5)'')"
abbreviation "k_major_storm \<equiv> (''starker geomagnetischer Sturm'', ''major geomagnetic storm'')"

abbreviation "aurora_unlikely \<equiv> (''Aurora-DX unwahrscheinlich'', ''Aurora DX unlikely'')"
abbreviation "aurora_possible \<equiv> (''moegliche Aurora-Aktivitaet'', ''possible auroral activity'')"
abbreviation "aurora_high \<equiv> (''hohe Aurora-Wahrscheinlichkeit'', ''high auroral probability'')"

abbreviation "xray_low \<equiv> (''X-Ray Hintergrund ruhig'', ''low X-ray background'')"
abbreviation "xray_c_flare \<equiv> (''C-Flare Aktivitaet'', ''C-flare activity'')"
abbreviation "xray_m_flare \<equiv>
  (''M-Flare - kurzzeitige HF-Daempfung moeglich'', ''M-flare - short HF fade possible'')"
abbreviation "xray_x_flare \<equiv>
  (''X-Flare - HF-Blackouts moeglich'', ''X-flare - HF blackouts possible'')"

text \<open>The place of a phrase pair in the ladder of \<open>classify_sfi\<close>, lowest band first.\<close>

definition sfi_severity :: "string \<times> string \<Rightarrow> nat" where
  "sfi_severity p =
     (if p = sfi_weak then 0 else if p = sfi_good then 1 else if p = sfi_very_good then 2 else 3)"

section \<open>The XML tree\<close>

text \<open>
  An element of \<open>xml.etree.ElementTree\<close>: its tag, its text (\<open>None\<close> when the element
  holds no character data before its first child, as in \<open><kindex/>\<close> and
  \<open><kindex></kindex>\<close>) and its children in document order.
\<close>

datatype element = Element (el_tag: string) (el_text: "string option") (el_children: "element list")

text \<open>\<open>parent.find(tag)\<close> for a plain tag: the first child with that tag.\<close>

definition find_child :: "element \<Rightarrow> string \<Rightarrow> element option" where
  "find_child parent t = List.find (\<lambda>c. el_tag c = t) (el_children parent)"

text \<open>
  \<open>root.find("./t1/t2/...")\<close> for the root element \<open>doc\<close>: each step replaces the elements reached so far by their
  children with the step's tag, in document order; the result is the first element
  reached by the last step.
\<close>

fun select_path :: "element list \<Rightarrow> string list \<Rightarrow> element list" where
  "select_path es [] = es"
| "select_path es (t # ts) =
     select_path (concat (map (\<lambda>e. filter (\<lambda>c. el_tag c = t) (el_children e)) es)) ts"

definition find_path :: "element \<Rightarrow> string list \<Rightarrow> element option" where
  "find_path doc ts = (case select_path [doc] ts of [] \<Rightarrow> None | e # _ \<Rightarrow> Some e)"

section \<open>Extraction\<close>

definition safe_get :: "element \<Rightarrow> string \<Rightarrow> string \<Rightarrow> string" where
  "safe_get parent t dflt =
     (case find_child parent t of
        None \<Rightarrow> dflt
      | Some el \<Rightarrow> (case el_text el of None \<Rightarrow> dflt | Some txt \<Rightarrow> strip txt))"

text \<open>The record node of \<open>main\<close>: \<open>./channel/item/solardata\<close>, else \<open>./channel/item\<close>,
  else the exit with a message.\<close>

definition locate_record :: "element \<Rightarrow> exn + element" where
  "locate_record doc =
     (case find_path doc [''channel'', ''item'', ''solardata''] of
        Some item \<Rightarrow> Inr item
      | None \<Rightarrow>
          (case find_path doc [''channel'', ''item''] of
             Some item \<Rightarrow> Inr item
           | None \<Rightarrow> Inl (SystemExit ''Konnte solardata-Element nicht finden'')))"

text \<open>The local variables of \<open>main\<close> after its lines 70 to 77.\<close>

record report =
  r_sfi :: pyfloat
  r_sn :: string
  r_a :: int
  r_k :: int
  r_xray :: string
  r_aurora :: pyfloat
  r_geomag :: string
  r_sig_noise :: string

text \<open>\<open>float(safe_get(item, tag, "0") or 0)\<close> and \<open>int(float(safe_get(item, tag, "0") or 0))\<close>.\<close>

definition get_float :: "element \<Rightarrow> string \<Rightarrow> exn + pyfloat" where
  "get_float item t = float_or_0 (safe_get item t ''0'')"

definition get_int :: "element \<Rightarrow> string \<Rightarrow> exn + int" where
  "get_int item t = (case get_float item t of Inl e \<Rightarrow> Inl e | Inr x \<Rightarrow> py_int x)"

text \<open>Lines 70 to 77, in their order: the first conversion that raises ends the run.\<close>

definition extract_report :: "element \<Rightarrow> exn + report" where
  "extract_report item =
     (case get_float item ''solarflux'' of
        Inl e \<Rightarrow> Inl e
      | Inr sfi \<Rightarrow>
     (case get_int item ''aindex'' of
        Inl e \<Rightarrow> Inl e
      | Inr a \<Rightarrow>
     (case get_int item ''kindex'' of
        Inl e \<Rightarrow> Inl e
      | Inr k \<Rightarrow>
     (case get_float item ''aurora'' of
        Inl e \<Rightarrow> Inl e
      | Inr aurora \<Rightarrow>
          Inr \<lparr> r_sfi = sfi,
                r_sn = safe_get item ''sunspots'' ''?'',
                r_a = a,
                r_k = k,
                r_xray = safe_get item ''xray'' '''',
                r_aurora = aurora,
                r_geomag = safe_get item ''geomagfield'' ''NoRpt'',
                r_sig_noise = safe_get item ''signalnoise'' ''?'' \<rparr>))))"

section \<open>Formatting\<close>

text \<open>\<open>xray or 'n/a'\<close>.\<close>

definition xray_or_na :: "string \<Rightarrow> string" where
  "xray_or_na xray = (if xray = [] then ''n/a'' else xray)"

text \<open>
  Lines 79 to 102: the classifications and the two lists of lines, for the time stamp
  \<open>now_utc\<close> already formatted. \<open>int(sfi)\<close> raises for a solar flux that is no number,
  and then no list is built.
\<close>

definition format_lines :: "report \<Rightarrow> string \<Rightarrow> exn + string list \<times> string list" where
  "format_lines r now_utc =
     (let (sfi_de, sfi_en) = classify_sfi (r_sfi r);
          (k_de, k_en) = classify_k (r_k r);
          (aur_de, aur_en) = classify_aurora (r_aurora r);
          (xr_de, xr_en) = classify_xray (r_xray r)
      in case py_int (r_sfi r) of
           Inl e \<Rightarrow> Inl e
         | Inr isfi \<Rightarrow>
             Inr ([''DL2HT Solarbericht - '' @ now_utc,
                   ''SFI '' @ str_int isfi @ '' / SN '' @ r_sn r @ '' - '' @ sfi_de,
                   ''A='' @ str_int (r_a r) @ '', K='' @ str_int (r_k r) @ '' - '' @ k_de,
                   ''Aurora-Index '' @ format_1f (r_aurora r) @ '' - '' @ aur_de,
                   ''X-Ray '' @ xray_or_na (r_xray r) @ '' - '' @ xr_de,
                   ''Geomag: '' @ r_geomag r @ '', Rauschpegel: '' @ r_sig_noise r],
                  [''DL2HT Solar Report - '' @ now_utc,
                   ''SFI '' @ str_int isfi @ '' / SSN '' @ r_sn r @ '' - '' @ sfi_en,
                   ''A='' @ str_int (r_a r) @ '', K='' @ str_int (r_k r) @ '' - '' @ k_en,
                   ''Aurora index '' @ format_1f (r_aurora r) @ '' - '' @ aur_en,
                   ''X-ray '' @ xray_or_na (r_xray r) @ '' - '' @ xr_en,
                   ''Geomag: '' @ r_geomag r @ '', Noise level: '' @ r_sig_noise r]))"

section \<open>The run\<close>

text \<open>
  \<open>main\<close> from the parsed document to the lines handed to the drawing code (lines 63 to
  102). The image is created and saved only after these lines (104 to 135), so a run that
  raises here writes no image.
\<close>

definition main_lines :: "element \<Rightarrow> string \<Rightarrow> exn + string list \<times> string list" where
  "main_lines doc now_utc =
     (case locate_record doc of
        Inl e \<Rightarrow> Inl e
      | Inr item \<Rightarrow>
          (case extract_report item of
             Inl e \<Rightarrow> Inl e
           | Inr r \<Rightarrow> format_lines r now_utc))"

text \<open>
  What the interpreter does with an exception that reaches the top: \<open>SystemExit\<close> with
  a string prints the string on the error stream and exits with status 1; any other
  exception prints a traceback and exits with status 1.
\<close>

datatype outcome = Exited int string | Rendered "string list" "string list"

fun run_outcome :: "exn + string list \<times> string list \<Rightarrow> outcome" where
  "run_outcome (Inl (SystemExit msg)) = Exited 1 msg"
| "run_outcome (Inl ValueError) = Exited 1 ''ValueError''"
| "run_outcome (Inl OverflowError) = Exited 1 ''OverflowError''"
| "run_outcome (Inr (de, en)) = Rendered de en"

text \<open>The test \<open>el is None or el.text is None\<close> of \<open>safe_get\<close>: the element is missing or
  has no text.\<close>

definition no_text :: "element \<Rightarrow> string \<Rightarrow> bool" where
  "no_text parent t = (case find_child parent t of None \<Rightarrow> True | Some el \<Rightarrow> el_text el = None)"

section \<open>Feeds used as examples\<close>

text \<open>The synthetic record: solarflux 150, sunspots 120, aindex 2, kindex 3, xray C4,
  aurora 6.2, geomagfield Active, signalnoise S1; and a document that holds it at
  \<open>channel/item/solardata\<close>.\<close>

definition synthetic_fields :: "element list" where
  "synthetic_fields =
     [Element ''solarflux'' (Some ''150'') [],
      Element ''sunspots'' (Some ''120'') [],
      Element ''aindex'' (Some ''2'') [],
      Element ''kindex'' (Some ''3'') [],
      Element ''xray'' (Some ''C4'') [],
      Element ''aurora'' (Some ''6.2'') [],
      Element ''geomagfield'' (Some ''Active'') [],
      Element ''signalnoise'' (Some ''S1'') []]"

definition synthetic_doc :: element where
  "synthetic_doc =
     Element ''rss'' None
       [Element ''channel'' None
          [Element ''item'' None [Element ''solardata'' None synthetic_fields]]]"

text \<open>The same fields directly under \<open>channel/item\<close>.\<close>

definition synthetic_flat_doc :: element where
  "synthetic_flat_doc =
     Element ''rss'' None [Element ''channel'' None [Element ''item'' None synthetic_fields]]"

text \<open>A document with no \<open>item\<close> under its \<open>channel\<close>.\<close>

definition empty_channel_doc :: element where
  "empty_channel_doc = Element ''rss'' None [Element ''channel'' None []]"

text \<open>A record whose \<open>aindex\<close> holds the text \<open>N/A\<close>, and its document.\<close>

definition na_item :: element where
  "na_item =
     Element ''solardata'' None
       [Element ''solarflux'' (Some ''150'') [],
        Element ''aindex'' (Some ''N/A'') [],
        Element ''kindex'' (Some ''3'') []]"

definition na_doc :: element where
  "na_doc = Element ''rss'' None [Element ''channel'' None [Element ''item'' None [na_item]]]"

text \<open>A record without a \<open>kindex\<close> element and with an empty \<open>sunspots\<close> element.\<close>

definition no_kindex_item :: element where
  "no_kindex_item =
     Element ''solardata'' None
       [Element ''solarflux'' (Some '' 150 '') [],
        Element ''sunspots'' None [],
        Element ''aindex'' (Some ''2'') [],
        Element ''aurora'' (Some ''6.2'') []]"

text \<open>A record without a \<open>kindex\<close> element whose \<open>aindex\<close> holds the text \<open>N/A\<close>, and its
  document.\<close>

definition no_kindex_na_item :: element where
  "no_kindex_na_item =
     Element ''solardata'' None
       [Element ''solarflux'' (Some ''150'') [],
        Element ''aindex'' (Some ''N/A'') [],
        Element ''aurora'' (Some ''6.2'') []]"

definition no_kindex_na_doc :: element where
  "no_kindex_na_doc =
     Element ''rss'' None [Element ''channel'' None [Element ''item'' None [no_kindex_na_item]]]"

text \<open>A record whose texts are padded with the white space U+00A0 and U+0085: \<open>kindex\<close>
  is 3 after a no-break space, \<open>aurora\<close> is a no-break space alone, and \<open>sunspots\<close> is
  120 between the two.\<close>

definition padded_item :: element where
  "padded_item =
     Element ''solardata'' None
       [Element ''kindex'' (Some [CHR 0xA0, CHR ''3'']) [],
        Element ''aurora'' (Some [CHR 0xA0]) [],
        Element ''sunspots'' (Some ([CHR 0xA0] @ ''120'' @ [CHR 0x85])) []]"

text \<open>A report whose solar flux is infinite, as the feed text \<open>inf\<close> gives it.\<close>

definition inf_report :: report where
  "inf_report =
     \<lparr> r_sfi = Infinity False, r_sn = ''120'', r_a = 2, r_k = 3, r_xray = ''C4'',
       r_aurora = Finite False 6, r_geomag = ''Active'', r_sig_noise = ''S1'' \<rparr>"

text \<open>The report of the synthetic record, as the extraction gives it.\<close>

definition synthetic_report :: report where
  "synthetic_report =
     \<lparr> r_sfi = Finite False 150, r_sn = ''120'', r_a = 2, r_k = 3, r_xray = ''C4'',
       r_aurora = Finite False (6980579422424269 / 2 ^ 50), r_geomag = ''Active'',
       r_sig_noise = ''S1'' \<rparr>"

section \<open>Properties of the classifiers\<close>

text \<open>
  C4. For every integer \<open>k\<close>, \<open>classify_k\<close> returns the quiet pair iff \<open>k \<le> 1\<close>, the
  unsettled pair iff \<open>2 \<le> k \<le> 3\<close>, the active pair iff \<open>k = 4\<close>, the minor-storm pair iff
  \<open>k = 5\<close> and the major-storm pair iff \<open>k > 5\<close>; so 1 is quiet, 3 unsettled, 4 active,
  5 a minor storm and 6 a major storm.
\<close>

theorem classify_k_bands:
  "(classify_k k = k_quiet \<longleftrightarrow> k \<le> 1) \<and>
   (classify_k k = k_unsettled \<longleftrightarrow> 2 \<le> k \<and> k \<le> 3) \<and>
   (classify_k k = k_active \<longleftrightarrow> k = 4) \<and>
   (classify_k k = k_minor_storm \<longleftrightarrow> k = 5) \<and>
   (classify_k k = k_major_storm \<longleftrightarrow> 5 < k) \<and>
   classify_k 1 = k_quiet \<and> classify_k 3 = k_unsettled \<and> classify_k 4 = k_active \<and>
   classify_k 5 = k_minor_storm \<and> classify_k 6 = k_major_storm"
  by (simp add: classify_k_def)

subsection \<open>Letters\<close>

lemma of_char_upper_char:
  "(of_char (upper_char c) :: nat) =
     (if 97 \<le> (of_char c :: nat) \<and> (of_char c :: nat) \<le> 122 then of_char c - 32 else of_char c)"
  by (auto simp add: upper_char_def Let_def)

lemma upper_char_eq_iff:
  "upper_char c = d \<longleftrightarrow>
     (if 97 \<le> (of_char c :: nat) \<and> (of_char c :: nat) \<le> 122 then (of_char c :: nat) - 32
      else of_char c) = of_char d"
  using of_char_upper_char [of c] of_char_eq_iff [where ?'a = nat, of "upper_char c" d] by simp

lemma char_eq_nat: "c = d \<longleftrightarrow> (of_char c :: nat) = of_char d"
  by simp

lemma upper_char_A: "upper_char c = CHR ''A'' \<longleftrightarrow> c = CHR ''A'' \<or> c = CHR ''a''"
  by (simp add: upper_char_eq_iff char_eq_nat [of c]) arith

lemma upper_char_B: "upper_char c = CHR ''B'' \<longleftrightarrow> c = CHR ''B'' \<or> c = CHR ''b''"
  by (simp add: upper_char_eq_iff char_eq_nat [of c]) arith

lemma upper_char_C: "upper_char c = CHR ''C'' \<longleftrightarrow> c = CHR ''C'' \<or> c = CHR ''c''"
  by (simp add: upper_char_eq_iff char_eq_nat [of c]) arith

lemma upper_char_M: "upper_char c = CHR ''M'' \<longleftrightarrow> c = CHR ''M'' \<or> c = CHR ''m''"
  by (simp add: upper_char_eq_iff char_eq_nat [of c]) arith

lemmas upper_char_letters = upper_char_A upper_char_B upper_char_C upper_char_M

subsection \<open>The X-ray class\<close>

lemma classify_xray_examples:
  "classify_xray '''' = xray_low \<and> classify_xray ''B5'' = xray_low \<and>
   classify_xray ''C3'' = xray_c_flare \<and> classify_xray ''c3'' = xray_c_flare \<and>
   classify_xray ''M1'' = xray_m_flare \<and> classify_xray ''X2'' = xray_x_flare"
  by (simp add: classify_xray_def Let_def upper_char_letters)

text \<open>
  C5. For every string, \<open>classify_xray\<close> returns the low-background pair iff the string is
  empty or begins with A or B in either case, the C-flare pair iff it begins with C or c,
  the M-flare pair iff it begins with M or m, and the X-flare pair for every other
  non-empty string; so the empty string and B5 are low background, C3 and c3 a C-flare,
  M1 an M-flare and X2 the blackout tier. \<open>take 1 s\<close> is the first character of \<open>s\<close> as a
  string.
\<close>

theorem classify_xray_bands:
  "(classify_xray s = xray_low \<longleftrightarrow> s = [] \<or> take 1 s \<in> {''A'', ''a'', ''B'', ''b''}) \<and>
   (classify_xray s = xray_c_flare \<longleftrightarrow> take 1 s \<in> {''C'', ''c''}) \<and>
   (classify_xray s = xray_m_flare \<longleftrightarrow> take 1 s \<in> {''M'', ''m''}) \<and>
   (classify_xray s = xray_x_flare \<longleftrightarrow>
      s \<noteq> [] \<and> take 1 s \<notin> {''A'', ''a'', ''B'', ''b'', ''C'', ''c'', ''M'', ''m''}) \<and>
   classify_xray '''' = xray_low \<and> classify_xray ''B5'' = xray_low \<and>
   classify_xray ''C3'' = xray_c_flare \<and> classify_xray ''c3'' = xray_c_flare \<and>
   classify_xray ''M1'' = xray_m_flare \<and> classify_xray ''X2'' = xray_x_flare"
proof -
  have "(classify_xray s = xray_low \<longleftrightarrow> s = [] \<or> take 1 s \<in> {''A'', ''a'', ''B'', ''b''}) \<and>
   (classify_xray s = xray_c_flare \<longleftrightarrow> take 1 s \<in> {''C'', ''c''}) \<and>
   (classify_xray s = xray_m_flare \<longleftrightarrow> take 1 s \<in> {''M'', ''m''}) \<and>
   (classify_xray s = xray_x_flare \<longleftrightarrow>
      s \<noteq> [] \<and> take 1 s \<notin> {''A'', ''a'', ''B'', ''b'', ''C'', ''c'', ''M'', ''m''})"
    by (cases s) (auto simp: classify_xray_def Let_def upper_char_letters)
  with classify_xray_examples show ?thesis by blast
qed

subsection \<open>The solar flux\<close>

lemma classify_sfi_boundaries:
  "map (\<lambda>s. map_sum id classify_sfi (py_float s))
     [''79.9'', ''80'', ''119.9'', ''120'', ''159.9'', ''160''] =
   [Inr sfi_weak, Inr sfi_good, Inr sfi_good, Inr sfi_very_good, Inr sfi_very_good,
    Inr sfi_excellent]"
  by code_simp

lemma sfi_severity_simps:
  "sfi_severity sfi_weak = 0" "sfi_severity sfi_good = 1"
  "sfi_severity sfi_very_good = 2" "sfi_severity sfi_excellent = 3"
  by (simp_all add: sfi_severity_def)

lemma classify_sfi_mono:
  "float_le x y \<Longrightarrow> sfi_severity (classify_sfi x) \<le> sfi_severity (classify_sfi y)"
  by (cases x; cases y) (auto simp: classify_sfi_def sfi_severity_simps)

text \<open>
  C3, as the code has it. For every float \<open>sfi\<close> that is not a NaN, \<open>classify_sfi\<close>
  returns the weak pair iff \<open>sfi < 80\<close>, the good pair iff \<open>80 \<le> sfi < 120\<close>, the very-good
  pair iff \<open>120 \<le> sfi < 160\<close> and the excellent pair iff \<open>sfi \<ge> 160\<close>; the severity does
  not decrease when \<open>sfi\<close> grows; and the floats read from 79.9, 80, 119.9, 120, 159.9 and
  160 are weak, good, good, very good, very good and excellent.
\<close>

theorem classify_sfi_bands:
  assumes "sfi \<noteq> NaN"
  shows "(classify_sfi sfi = sfi_weak \<longleftrightarrow> float_lt sfi 80) \<and>
         (classify_sfi sfi = sfi_good \<longleftrightarrow> float_ge sfi 80 \<and> float_lt sfi 120) \<and>
         (classify_sfi sfi = sfi_very_good \<longleftrightarrow> float_ge sfi 120 \<and> float_lt sfi 160) \<and>
         (classify_sfi sfi = sfi_excellent \<longleftrightarrow> float_ge sfi 160) \<and>
         (\<forall>y. float_le sfi y \<longrightarrow>
            sfi_severity (classify_sfi sfi) \<le> sfi_severity (classify_sfi y)) \<and>
         map (\<lambda>s. map_sum id classify_sfi (py_float s))
           [''79.9'', ''80'', ''119.9'', ''120'', ''159.9'', ''160''] =
         [Inr sfi_weak, Inr sfi_good, Inr sfi_good, Inr sfi_very_good, Inr sfi_very_good,
          Inr sfi_excellent]"
proof -
  have "(classify_sfi sfi = sfi_weak \<longleftrightarrow> float_lt sfi 80) \<and>
        (classify_sfi sfi = sfi_good \<longleftrightarrow> float_ge sfi 80 \<and> float_lt sfi 120) \<and>
        (classify_sfi sfi = sfi_very_good \<longleftrightarrow> float_ge sfi 120 \<and> float_lt sfi 160) \<and>
        (classify_sfi sfi = sfi_excellent \<longleftrightarrow> float_ge sfi 160)"
    using assms by (cases sfi) (auto simp: classify_sfi_def)
  with classify_sfi_mono classify_sfi_boundaries show ?thesis by blast
qed

theorem classify_sfi_bands_witness:
  "Finite False 80 \<noteq> NaN \<and> classify_sfi (Finite False 80) = sfi_good \<and>
   classify_sfi (Finite False 80) \<noteq> sfi_weak \<and>
   sfi_severity (classify_sfi (Finite False 80)) \<le> sfi_severity (classify_sfi (Infinity False))"
proof -
  have ne: "Finite False 80 \<noteq> NaN" by simp
  have le: "float_le (Finite False 80) (Infinity False)" by simp
  note bands = classify_sfi_bands [OF ne]
  from bands le
  have "sfi_severity (classify_sfi (Finite False 80)) \<le> sfi_severity (classify_sfi (Infinity False))"
    by blast
  moreover from bands
  have "classify_sfi (Finite False 80) = sfi_good \<and> classify_sfi (Finite False 80) \<noteq> sfi_weak"
    by simp
  ultimately show ?thesis by simp
qed

text \<open>The claim C3 as stated fails at the NaN, which \<open>float("nan")\<close> yields: every
  comparison is false, so the last band is taken, while \<open>sfi >= 160\<close> is false.\<close>

theorem classify_sfi_nan_counterexample:
  "classify_sfi NaN = sfi_excellent \<and> \<not> float_ge NaN 160 \<and> py_float ''nan'' = Inr NaN"
proof -
  have "py_float ''nan'' = Inr NaN" by code_simp
  then show ?thesis by (simp add: classify_sfi_def)
qed

subsection \<open>The aurora index\<close>

lemma classify_aurora_boundaries:
  "map (\<lambda>s. map_sum id classify_aurora (py_float s)) [''4.9'', ''5'', ''6.9'', ''7''] =
   [Inr aurora_unlikely, Inr aurora_possible, Inr aurora_possible, Inr aurora_high]"
  by code_simp

text \<open>
  C6, as the code has it. For every float \<open>a\<close> that is not a NaN, \<open>classify_aurora\<close>
  returns the unlikely pair iff \<open>a < 5\<close>, the possible pair iff \<open>5 \<le> a < 7\<close> and the
  high-probability pair iff \<open>a \<ge> 7\<close>; the floats read from 4.9, 5, 6.9 and 7 are unlikely,
  possible, possible and high.
\<close>

theorem classify_aurora_bands:
  assumes "a \<noteq> NaN"
  shows "(classify_aurora a = aurora_unlikely \<longleftrightarrow> float_lt a 5) \<and>
         (classify_aurora a = aurora_possible \<longleftrightarrow> float_ge a 5 \<and> float_lt a 7) \<and>
         (classify_aurora a = aurora_high \<longleftrightarrow> float_ge a 7) \<and>
         map (\<lambda>s. map_sum id classify_aurora (py_float s)) [''4.9'', ''5'', ''6.9'', ''7''] =
         [Inr aurora_unlikely, Inr aurora_possible, Inr aurora_possible, Inr aurora_high]"
proof -
  have "(classify_aurora a = aurora_unlikely \<longleftrightarrow> float_lt a 5) \<and>
        (classify_aurora a = aurora_possible \<longleftrightarrow> float_ge a 5 \<and> float_lt a 7) \<and>
        (classify_aurora a = aurora_high \<longleftrightarrow> float_ge a 7)"
    using assms by (cases a) (auto simp: classify_aurora_def)
  with classify_aurora_boundaries show ?thesis by blast
qed

theorem classify_aurora_bands_witness:
  "Finite False 5 \<noteq> NaN \<and> classify_aurora (Finite False 5) = aurora_possible \<and>
   classify_aurora (Finite False 5) \<noteq> aurora_unlikely"
  using classify_aurora_bands [of "Finite False 5"] by simp

text \<open>The claim C6 as stated fails at the NaN: the last band is taken, while \<open>a >= 7\<close>
  is false.\<close>

theorem classify_aurora_nan_counterexample:
  "classify_aurora NaN = aurora_high \<and> \<not> float_ge NaN 7"
  by (simp add: classify_aurora_def)

subsection \<open>Totality\<close>

text \<open>
  C10. Every classifier returns, for every input of its type, one of the pairs of its
  ladder, and the pairs of a ladder differ from each other; a negative solar flux (also
  minus infinity) is weak, a negative K index quiet and a negative aurora index unlikely.
\<close>

theorem classifiers_total:
  "classify_sfi sfi \<in> {sfi_weak, sfi_good, sfi_very_good, sfi_excellent} \<and>
   classify_k k \<in> {k_quiet, k_unsettled, k_active, k_minor_storm, k_major_storm} \<and>
   classify_aurora a \<in> {aurora_unlikely, aurora_possible, aurora_high} \<and>
   classify_xray x \<in> {xray_low, xray_c_flare, xray_m_flare, xray_x_flare} \<and>
   distinct [sfi_weak, sfi_good, sfi_very_good, sfi_excellent] \<and>
   distinct [k_quiet, k_unsettled, k_active, k_minor_storm, k_major_storm] \<and>
   distinct [aurora_unlikely, aurora_possible, aurora_high] \<and>
   distinct [xray_low, xray_c_flare, xray_m_flare, xray_x_flare] \<and>
   (float_lt sfi 0 \<longrightarrow> classify_sfi sfi = sfi_weak) \<and>
   (k < 0 \<longrightarrow> classify_k k = k_quiet) \<and>
   (float_lt a 0 \<longrightarrow> classify_aurora a = aurora_unlikely)"
proof -
  have 1: "classify_sfi sfi \<in> {sfi_weak, sfi_good, sfi_very_good, sfi_excellent}"
    by (simp add: classify_sfi_def)
  have 2: "classify_k k \<in> {k_quiet, k_unsettled, k_active, k_minor_storm, k_major_storm}"
    by (simp add: classify_k_def)
  have 3: "classify_aurora a \<in> {aurora_unlikely, aurora_possible, aurora_high}"
    by (simp add: classify_aurora_def)
  have 4: "classify_xray x \<in> {xray_low, xray_c_flare, xray_m_flare, xray_x_flare}"
    by (cases x) (simp_all add: classify_xray_def Let_def)
  have 5: "float_lt sfi 0 \<longrightarrow> classify_sfi sfi = sfi_weak"
    by (cases sfi) (auto simp: classify_sfi_def)
  have 6: "k < 0 \<longrightarrow> classify_k k = k_quiet"
    by (simp add: classify_k_def)
  have 7: "float_lt a 0 \<longrightarrow> classify_aurora a = aurora_unlikely"
    by (cases a) (auto simp: classify_aurora_def)
  from 1 2 3 4 5 6 7 show ?thesis by simp
qed

theorem classifiers_total_witness:
  "float_lt (Finite True 1) 0 \<and> classify_sfi (Finite True 1) = sfi_weak \<and>
   (- 1 :: int) < 0 \<and> classify_k (- 1) = k_quiet \<and>
   classify_aurora (Finite True 1) = aurora_unlikely \<and>
   classify_xray ''Z9'' \<in> {xray_low, xray_c_flare, xray_m_flare, xray_x_flare}"
  using classifiers_total [of "Finite True 1" "- 1" "Finite True 1" "''Z9''"] by simp

section \<open>Properties of the extraction\<close>

subsection \<open>Conversions that fail\<close>

lemma py_float_zero: "py_float ''0'' = Inr (Finite False 0)"
  by code_simp

lemma py_float_not_a_number: "py_float ''N/A'' = Inl ValueError"
  by code_simp

lemma parse_decimal_error: "parse_decimal neg s = Inl e \<Longrightarrow> e = ValueError"
  by (auto simp: parse_decimal_def Let_def
      split: list.splits if_splits option.splits prod.splits)

lemma py_float_error: "py_float s = Inl e \<Longrightarrow> e = ValueError"
  by (auto simp: py_float_def Let_def split: option.splits prod.splits if_splits
      dest: parse_decimal_error)

lemma py_int_error: "py_int x = Inl e \<Longrightarrow> e = ValueError \<or> e = OverflowError"
  by (cases x) auto

lemma get_float_error: "get_float item t = Inl e \<Longrightarrow> e = ValueError"
  by (auto simp: get_float_def float_or_0_def split: if_splits dest: py_float_error)

lemma get_int_error: "get_int item t = Inl e \<Longrightarrow> e = ValueError \<or> e = OverflowError"
  by (auto simp: get_int_def split: sum.splits dest: get_float_error py_int_error)

lemma extract_report_error:
  "extract_report item = Inl e \<Longrightarrow> e = ValueError \<or> e = OverflowError"
  by (auto simp: extract_report_def split: sum.splits dest: get_float_error get_int_error)

lemma extract_report_fails:
  assumes "t \<in> {''solarflux'', ''aindex'', ''kindex'', ''aurora''}"
    and "get_float item t = Inl e"
  shows "\<exists>e'. extract_report item = Inl e'"
  using assms by (auto simp: extract_report_def get_int_def split: sum.splits)

lemma no_text_safe_get: "no_text item t \<Longrightarrow> safe_get item t d = d"
  by (auto simp: no_text_def safe_get_def split: option.splits)

lemma no_text_get_float: "no_text item t \<Longrightarrow> get_float item t = Inr (Finite False 0)"
  by (simp add: get_float_def no_text_safe_get float_or_0_def py_float_zero)

lemma no_text_get_int: "no_text item t \<Longrightarrow> get_int item t = Inr 0"
  by (simp add: get_int_def no_text_get_float trunc_def)

lemma na_item_aindex: "safe_get na_item ''aindex'' ''0'' = ''N/A''"
  by code_simp

lemma na_item_extract: "extract_report na_item = Inl ValueError"
  by code_simp

lemma na_doc_locate: "locate_record na_doc = Inr na_item"
  by code_simp

text \<open>
  C1, as the code has it. When a numeric field (solarflux, aindex, kindex, aurora) holds
  text that is not empty after trimming and that \<open>float\<close> rejects, as it rejects \<open>N/A\<close>,
  the extraction raises (\<open>ValueError\<close>, or \<open>OverflowError\<close> when an earlier index is
  infinite) and the run ends there with no report. A numeric field counts as 0 when its
  element is missing or has no text, or when its text is empty after trimming.
\<close>

theorem non_numeric_field_raises:
  assumes "t \<in> {''solarflux'', ''aindex'', ''kindex'', ''aurora''}"
    and "safe_get item t ''0'' \<noteq> []"
    and "py_float (safe_get item t ''0'') = Inl e"
  shows "extract_report item \<in> {Inl ValueError, Inl OverflowError} \<and>
         (\<forall>doc now. locate_record doc = Inr item \<longrightarrow>
            main_lines doc now \<in> {Inl ValueError, Inl OverflowError}) \<and>
         py_float ''N/A'' = Inl ValueError \<and>
         (\<forall>u. no_text item u \<or> safe_get item u ''0'' = [] \<longrightarrow>
            get_float item u = Inr (Finite False 0))"
proof -
  from assms(2,3) have "get_float item t = Inl e"
    by (simp add: get_float_def float_or_0_def)
  with assms(1) obtain e' where e': "extract_report item = Inl e'"
    using extract_report_fails by blast
  then have "e' = ValueError \<or> e' = OverflowError" by (rule extract_report_error)
  with e' have 1: "extract_report item \<in> {Inl ValueError, Inl OverflowError}" by auto
  with e' have 2: "main_lines doc now \<in> {Inl ValueError, Inl OverflowError}"
    if "locate_record doc = Inr item" for doc now
    using that by (simp add: main_lines_def)
  have 3: "get_float item u = Inr (Finite False 0)"
    if "no_text item u \<or> safe_get item u ''0'' = []" for u
    using that by (auto simp: no_text_get_float) (simp add: get_float_def float_or_0_def)
  from 1 2 3 py_float_not_a_number show ?thesis by blast
qed

theorem non_numeric_field_raises_witness:
  "''aindex'' \<in> {''solarflux'', ''aindex'', ''kindex'', ''aurora''} \<and>
   safe_get na_item ''aindex'' ''0'' \<noteq> [] \<and>
   py_float (safe_get na_item ''aindex'' ''0'') = Inl ValueError \<and>
   extract_report na_item \<in> {Inl ValueError, Inl OverflowError}"
proof -
  have 1: "''aindex'' \<in> {''solarflux'', ''aindex'', ''kindex'', ''aurora''}" by simp
  have 2: "safe_get na_item ''aindex'' ''0'' \<noteq> []" by (simp add: na_item_aindex)
  have 3: "py_float (safe_get na_item ''aindex'' ''0'') = Inl ValueError"
    by (simp add: na_item_aindex py_float_not_a_number)
  from non_numeric_field_raises [OF 1 2 3] 1 2 3 show ?thesis by blast
qed

text \<open>The claim C1 as stated fails on a record whose \<open>aindex\<close> is \<open>N/A\<close>: the run ends
  with the \<open>ValueError\<close> of \<open>float\<close>, and no default is taken.\<close>

theorem non_numeric_aindex_counterexample:
  "safe_get na_item ''aindex'' ''0'' = ''N/A'' \<and>
   extract_report na_item = Inl ValueError \<and>
   locate_record na_doc = Inr na_item \<and>
   run_outcome (main_lines na_doc ''03 Nov 2026, 17:24 UTC'') = Exited 1 ''ValueError''"
  by (simp add: na_item_aindex na_item_extract na_doc_locate main_lines_def)

subsection \<open>Fields that are missing\<close>

lemma no_kindex_item_extract:
  "extract_report no_kindex_item =
     Inr \<lparr> r_sfi = Finite False 150, r_sn = ''?'', r_a = 2, r_k = 0, r_xray = '''',
           r_aurora = Finite False (6980579422424269 / 2 ^ 50), r_geomag = ''NoRpt'',
           r_sig_noise = ''?'' \<rparr>"
  by code_simp

lemma no_kindex_item_no_text:
  "no_text no_kindex_item ''kindex'' \<and> no_text no_kindex_item ''sunspots'' \<and>
   \<not> no_text no_kindex_item ''solarflux''"
  by code_simp

lemma synthetic_item_extract:
  "extract_report (Element ''solardata'' None synthetic_fields) = Inr synthetic_report"
  by code_simp

lemma padded_item_extract:
  "extract_report padded_item =
     Inr \<lparr> r_sfi = Finite False 0, r_sn = ''120'', r_a = 0, r_k = 3, r_xray = '''',
           r_aurora = Finite False 0, r_geomag = ''NoRpt'', r_sig_noise = ''?'' \<rparr>"
  by code_simp

lemma no_kindex_na_item_extract:
  "no_text no_kindex_na_item ''kindex'' \<and> extract_report no_kindex_na_item = Inl ValueError \<and>
   locate_record no_kindex_na_doc = Inr no_kindex_na_item"
  by code_simp

lemma extract_report_fields:
  assumes "extract_report item = Inr r"
  shows "get_float item ''solarflux'' = Inr (r_sfi r)" "get_int item ''aindex'' = Inr (r_a r)"
    "get_int item ''kindex'' = Inr (r_k r)" "get_float item ''aurora'' = Inr (r_aurora r)"
    "r_sn r = safe_get item ''sunspots'' ''?''" "r_xray r = safe_get item ''xray'' ''''"
    "r_geomag r = safe_get item ''geomagfield'' ''NoRpt''"
    "r_sig_noise r = safe_get item ''signalnoise'' ''?''"
  using assms by (auto simp: extract_report_def split: sum.splits)

lemma extract_report_built:
  assumes "get_float item ''solarflux'' = Inr (r_sfi r)" "get_int item ''aindex'' = Inr (r_a r)"
    "get_int item ''kindex'' = Inr (r_k r)" "get_float item ''aurora'' = Inr (r_aurora r)"
    "r_sn r = safe_get item ''sunspots'' ''?''" "r_xray r = safe_get item ''xray'' ''''"
    "r_geomag r = safe_get item ''geomagfield'' ''NoRpt''"
    "r_sig_noise r = safe_get item ''signalnoise'' ''?''"
  shows "extract_report item = Inr r"
proof -
  have "r = \<lparr> r_sfi = r_sfi r, r_sn = r_sn r, r_a = r_a r, r_k = r_k r, r_xray = r_xray r,
              r_aurora = r_aurora r, r_geomag = r_geomag r, r_sig_noise = r_sig_noise r \<rparr>"
    by simp
  with assms show ?thesis by (simp add: extract_report_def)
qed

lemma text_safe_get:
  "find_child item t = Some el \<Longrightarrow> el_text el = Some txt \<Longrightarrow> safe_get item t d = strip txt"
  by (simp add: safe_get_def)

text \<open>
  C2, as the code has it. A field whose element is missing or has no text is replaced by
  its default, and a field with text by its trimmed text: the numeric fields solarflux,
  aindex, kindex and aurora by \<open>"0"\<close>, hence the number 0, and otherwise by the number
  that \<open>float\<close> reads from the trimmed text (truncated for aindex and kindex), sunspots by
  \<open>"?"\<close>, geomagfield by \<open>"NoRpt"\<close> and xray by the empty string. The extraction returns a
  report exactly when the four numeric conversions succeed, and the report then holds
  these values in all its fields. A record without \<open>kindex\<close> has the K index 0, which is
  quiet, and the missing element raises nothing: the extraction returns when the other
  three numeric fields convert.
\<close>

theorem missing_fields_default:
  "(no_text item t \<longrightarrow>
      safe_get item t d = d \<and> get_float item t = Inr (Finite False 0) \<and>
      get_int item t = Inr 0) \<and>
   (\<forall>el txt. find_child item t = Some el \<and> el_text el = Some txt \<longrightarrow>
      safe_get item t d = strip txt \<and>
      get_float item t = float_or_0 (strip txt) \<and>
      get_int item t = (case float_or_0 (strip txt) of Inl e \<Rightarrow> Inl e | Inr x \<Rightarrow> py_int x)) \<and>
   classify_k 0 = k_quiet \<and>
   (\<forall>r. extract_report item = Inr r \<longleftrightarrow>
      get_float item ''solarflux'' = Inr (r_sfi r) \<and>
      get_int item ''aindex'' = Inr (r_a r) \<and>
      get_int item ''kindex'' = Inr (r_k r) \<and>
      get_float item ''aurora'' = Inr (r_aurora r) \<and>
      r_sn r = safe_get item ''sunspots'' ''?'' \<and>
      r_xray r = safe_get item ''xray'' '''' \<and>
      r_geomag r = safe_get item ''geomagfield'' ''NoRpt'' \<and>
      r_sig_noise r = safe_get item ''signalnoise'' ''?'') \<and>
   (\<forall>r. extract_report item = Inr r \<longrightarrow>
      (no_text item ''sunspots'' \<longrightarrow> r_sn r = ''?'') \<and>
      (no_text item ''xray'' \<longrightarrow> r_xray r = '''') \<and>
      (no_text item ''geomagfield'' \<longrightarrow> r_geomag r = ''NoRpt'') \<and>
      (no_text item ''solarflux'' \<longrightarrow> r_sfi r = Finite False 0) \<and>
      (no_text item ''aindex'' \<longrightarrow> r_a r = 0) \<and>
      (no_text item ''kindex'' \<longrightarrow> r_k r = 0 \<and> classify_k (r_k r) = k_quiet) \<and>
      (no_text item ''aurora'' \<longrightarrow> r_aurora r = Finite False 0)) \<and>
   (\<forall>x a y. no_text item ''kindex'' \<and> get_float item ''solarflux'' = Inr x \<and>
      get_int item ''aindex'' = Inr a \<and> get_float item ''aurora'' = Inr y \<longrightarrow>
      (\<exists>r. extract_report item = Inr r \<and> r_k r = 0 \<and> classify_k (r_k r) = k_quiet))"
proof -
  have q: "classify_k 0 = k_quiet" by (simp add: classify_k_def)
  have 1: "no_text item t \<longrightarrow>
      safe_get item t d = d \<and> get_float item t = Inr (Finite False 0) \<and>
      get_int item t = Inr 0"
    by (simp add: no_text_safe_get no_text_get_float no_text_get_int)
  have 2: "\<forall>el txt. find_child item t = Some el \<and> el_text el = Some txt \<longrightarrow>
      safe_get item t d = strip txt \<and>
      get_float item t = float_or_0 (strip txt) \<and>
      get_int item t = (case float_or_0 (strip txt) of Inl e \<Rightarrow> Inl e | Inr x \<Rightarrow> py_int x)"
    by (simp add: get_int_def get_float_def text_safe_get)
  have 3: "\<forall>r. extract_report item = Inr r \<longleftrightarrow>
      get_float item ''solarflux'' = Inr (r_sfi r) \<and>
      get_int item ''aindex'' = Inr (r_a r) \<and>
      get_int item ''kindex'' = Inr (r_k r) \<and>
      get_float item ''aurora'' = Inr (r_aurora r) \<and>
      r_sn r = safe_get item ''sunspots'' ''?'' \<and>
      r_xray r = safe_get item ''xray'' '''' \<and>
      r_geomag r = safe_get item ''geomagfield'' ''NoRpt'' \<and>
      r_sig_noise r = safe_get item ''signalnoise'' ''?''"
  proof (intro allI iffI)
    fix r :: report
    assume "extract_report item = Inr r"
    from extract_report_fields [OF this]
    show "get_float item ''solarflux'' = Inr (r_sfi r) \<and>
      get_int item ''aindex'' = Inr (r_a r) \<and>
      get_int item ''kindex'' = Inr (r_k r) \<and>
      get_float item ''aurora'' = Inr (r_aurora r) \<and>
      r_sn r = safe_get item ''sunspots'' ''?'' \<and>
      r_xray r = safe_get item ''xray'' '''' \<and>
      r_geomag r = safe_get item ''geomagfield'' ''NoRpt'' \<and>
      r_sig_noise r = safe_get item ''signalnoise'' ''?''"
      by (intro conjI)
  next
    fix r :: report
    assume "get_float item ''solarflux'' = Inr (r_sfi r) \<and>
      get_int item ''aindex'' = Inr (r_a r) \<and>
      get_int item ''kindex'' = Inr (r_k r) \<and>
      get_float item ''aurora'' = Inr (r_aurora r) \<and>
      r_sn r = safe_get item ''sunspots'' ''?'' \<and>
      r_xray r = safe_get item ''xray'' '''' \<and>
      r_geomag r = safe_get item ''geomagfield'' ''NoRpt'' \<and>
      r_sig_noise r = safe_get item ''signalnoise'' ''?''"
    then show "extract_report item = Inr r"
      by (intro extract_report_built) simp_all
  qed
  have 4: "\<forall>r. extract_report item = Inr r \<longrightarrow>
      (no_text item ''sunspots'' \<longrightarrow> r_sn r = ''?'') \<and>
      (no_text item ''xray'' \<longrightarrow> r_xray r = '''') \<and>
      (no_text item ''geomagfield'' \<longrightarrow> r_geomag r = ''NoRpt'') \<and>
      (no_text item ''solarflux'' \<longrightarrow> r_sfi r = Finite False 0) \<and>
      (no_text item ''aindex'' \<longrightarrow> r_a r = 0) \<and>
      (no_text item ''kindex'' \<longrightarrow> r_k r = 0 \<and> classify_k (r_k r) = k_quiet) \<and>
      (no_text item ''aurora'' \<longrightarrow> r_aurora r = Finite False 0)"
  proof (intro allI impI)
    fix r
    assume "extract_report item = Inr r"
    from extract_report_fields [OF this] q
    show "(no_text item ''sunspots'' \<longrightarrow> r_sn r = ''?'') \<and>
      (no_text item ''xray'' \<longrightarrow> r_xray r = '''') \<and>
      (no_text item ''geomagfield'' \<longrightarrow> r_geomag r = ''NoRpt'') \<and>
      (no_text item ''solarflux'' \<longrightarrow> r_sfi r = Finite False 0) \<and>
      (no_text item ''aindex'' \<longrightarrow> r_a r = 0) \<and>
      (no_text item ''kindex'' \<longrightarrow> r_k r = 0 \<and> classify_k (r_k r) = k_quiet) \<and>
      (no_text item ''aurora'' \<longrightarrow> r_aurora r = Finite False 0)"
      by (auto simp: no_text_safe_get no_text_get_float no_text_get_int)
  qed
  have 5: "\<forall>x a y. no_text item ''kindex'' \<and> get_float item ''solarflux'' = Inr x \<and>
      get_int item ''aindex'' = Inr a \<and> get_float item ''aurora'' = Inr y \<longrightarrow>
      (\<exists>r. extract_report item = Inr r \<and> r_k r = 0 \<and> classify_k (r_k r) = k_quiet)"
    using q by (simp add: extract_report_def no_text_get_int)
  show ?thesis
    using 1 2 q 3 4 5 by (intro conjI)
qed

theorem missing_fields_default_witness:
  "no_text no_kindex_item ''kindex'' \<and> no_text no_kindex_item ''sunspots'' \<and>
   get_int no_kindex_item ''kindex'' = Inr 0 \<and>
   get_float no_kindex_item ''solarflux'' = Inr (Finite False 150) \<and>
   get_int no_kindex_item ''aindex'' = Inr 2 \<and>
   (\<exists>r. extract_report no_kindex_item = Inr r \<and> r_k r = 0 \<and> r_sn r = ''?'' \<and>
      classify_k (r_k r) = k_quiet) \<and>
   get_int (Element ''solardata'' None synthetic_fields) ''kindex'' = Inr 3"
proof -
  note d = missing_fields_default [of no_kindex_item "''kindex''" "''0''"]
  note s = missing_fields_default [of "Element ''solardata'' None synthetic_fields"]
  from d no_kindex_item_no_text have k: "get_int no_kindex_item ''kindex'' = Inr 0" by blast
  from d have "\<And>r. extract_report no_kindex_item = Inr r \<Longrightarrow>
      get_float no_kindex_item ''solarflux'' = Inr (r_sfi r) \<and>
      get_int no_kindex_item ''aindex'' = Inr (r_a r)"
    by blast
  from this [OF no_kindex_item_extract]
  have f: "get_float no_kindex_item ''solarflux'' = Inr (Finite False 150) \<and>
      get_int no_kindex_item ''aindex'' = Inr 2"
    by simp
  from s have "\<And>r. extract_report (Element ''solardata'' None synthetic_fields) = Inr r \<Longrightarrow>
      get_int (Element ''solardata'' None synthetic_fields) ''kindex'' = Inr (r_k r)"
    by blast
  from this [OF synthetic_item_extract]
  have "get_int (Element ''solardata'' None synthetic_fields) ''kindex'' =
      Inr (r_k synthetic_report)" .
  then have t: "get_int (Element ''solardata'' None synthetic_fields) ''kindex'' = Inr 3"
    by (simp add: synthetic_report_def)
  from no_kindex_item_extract
  have "\<exists>r. extract_report no_kindex_item = Inr r \<and> r_k r = 0 \<and> r_sn r = ''?'' \<and>
      classify_k (r_k r) = k_quiet"
    by (simp add: classify_k_def)
  with k f t no_kindex_item_no_text show ?thesis by simp
qed

text \<open>The claim C2 as stated fails on a record without \<open>kindex\<close> whose \<open>aindex\<close> is
  \<open>N/A\<close>: the conversion of \<open>aindex\<close> raises before \<open>kindex\<close> is read, so there is no
  report and no K index.\<close>

theorem missing_kindex_raises_counterexample:
  "no_text no_kindex_na_item ''kindex'' \<and>
   extract_report no_kindex_na_item = Inl ValueError \<and>
   run_outcome (main_lines no_kindex_na_doc ''03 Nov 2026, 17:24 UTC'') = Exited 1 ''ValueError''"
  using no_kindex_na_item_extract by (simp add: main_lines_def)

section \<open>Properties of the formatting\<close>

subsection \<open>Magnitudes are not negative\<close>

lemma round_half_even_div_nonneg: "0 \<le> n \<Longrightarrow> 0 < d \<Longrightarrow> 0 \<le> round_half_even_div n d"
  by (auto simp: round_half_even_div_def Let_def pos_imp_zdiv_nonneg_iff)

lemma round_double_nonneg:
  assumes "0 \<le> n" "0 < d" "round_double n d = Some m"
  shows "0 \<le> m"
proof (cases "n = 0")
  case True
  with assms show ?thesis by (simp add: round_double_def)
next
  case False
  define d0 where "d0 = int (bit_length n) - int (bit_length d)"
  define e where "e = (if ge_pow2 n d d0 then d0 else d0 - 1)"
  define p where "p = max e (- 1022) - 52"
  define k where "k = (if 0 \<le> p then round_half_even_div n (d * 2 ^ nat p)
                 else round_half_even_div (n * 2 ^ nat (- p)) d)"
  from assms(1,2) have k: "0 \<le> k"
    unfolding k_def by (auto intro!: round_half_even_div_nonneg)
  have "round_double n d = (if 971 < p \<or> (p = 971 \<and> 2 ^ 53 \<le> k) then None
           else if 0 \<le> p then Some (of_int (k * 2 ^ nat p))
           else Some (of_int k / of_int (2 ^ nat (- p))))"
    using False
    unfolding round_double_def Let_def d0_def [symmetric] e_def [symmetric]
      p_def [symmetric] k_def [symmetric]
    by simp
  with assms(3) have "m = of_int (k * 2 ^ nat p) \<or> m = of_int k / of_int (2 ^ nat (- p))"
    by (simp split: if_splits)
  with k show ?thesis by auto
qed

lemma decimal_value_nonneg:
  assumes "0 \<le> n" "decimal_value n e = Some m"
  shows "0 \<le> m"
proof (cases "0 \<le> e")
  case True
  with assms(2) have "round_double (n * 10 ^ nat e) 1 = Some m"
    by (simp add: decimal_value_def)
  moreover from assms(1) have "0 \<le> n * 10 ^ nat e" by simp
  ultimately show ?thesis using round_double_nonneg [of "n * 10 ^ nat e" 1 m] by simp
next
  case False
  with assms(2) have "round_double n (10 ^ nat (- e)) = Some m"
    by (simp add: decimal_value_def)
  with assms(1) show ?thesis using round_double_nonneg [of n "10 ^ nat (- e)" m] by simp
qed

lemma is_digit_val: "is_digit c \<Longrightarrow> 0 \<le> digit_val c"
  by (simp add: is_digit_def digit_val_def Let_def)

lemma foldl_digits_nonneg:
  "0 \<le> acc \<Longrightarrow> list_all is_digit ds \<Longrightarrow>
   0 \<le> foldl (\<lambda>acc c. 10 * acc + digit_val c) acc ds"
proof (induction ds arbitrary: acc)
  case Nil
  then show ?case by simp
next
  case (Cons c ds)
  from Cons.prems have c: "is_digit c" and ds: "list_all is_digit ds" by simp_all
  from c have "0 \<le> digit_val c" by (rule is_digit_val)
  with Cons.prems(1) have "0 \<le> 10 * acc + digit_val c" by simp
  from Cons.IH [OF this ds] show ?case by simp
qed

lemma int_of_digits_nonneg: "list_all is_digit ds \<Longrightarrow> 0 \<le> int_of_digits ds"
  unfolding int_of_digits_def by (rule foldl_digits_nonneg) simp_all

lemma list_all_takeWhile: "list_all P (takeWhile P xs)"
  by (induction xs) auto

lemma split_fraction_digits: "split_fraction r = (fp, r2) \<Longrightarrow> list_all is_digit fp"
  by (auto simp: split_fraction_def list_all_takeWhile split: list.splits if_splits)

lemma parse_decimal_nonneg:
  assumes "parse_decimal neg s = Inr (Finite b m)"
  shows "0 \<le> m"
proof -
  obtain fp r2 where fr: "split_fraction (dropWhile is_digit s) = (fp, r2)"
    by (cases "split_fraction (dropWhile is_digit s)")
  then have "list_all is_digit fp" by (rule split_fraction_digits)
  then have n: "0 \<le> int_of_digits (takeWhile is_digit s @ fp)"
    by (intro int_of_digits_nonneg) (simp add: list_all_takeWhile)
  from assms fr obtain ex
    where "decimal_value (int_of_digits (takeWhile is_digit s @ fp)) (ex - int (length fp)) =
      Some m"
    by (simp add: parse_decimal_def Let_def split: if_splits option.splits)
  with n show ?thesis by (rule decimal_value_nonneg)
qed

lemma py_float_nonneg:
  assumes "py_float s = Inr (Finite b m)"
  shows "0 \<le> m"
proof -
  from assms obtain neg u where "parse_decimal neg u = Inr (Finite b m)"
    by (simp add: py_float_def Let_def split_beta split: option.splits if_splits)
  then show ?thesis by (rule parse_decimal_nonneg)
qed

lemma get_float_nonneg:
  assumes "get_float item t = Inr (Finite b m)"
  shows "0 \<le> m"
proof (cases "safe_get item t ''0'' = []")
  case True
  with assms show ?thesis by (simp add: get_float_def float_or_0_def)
next
  case False
  with assms have "py_float (safe_get item t ''0'') = Inr (Finite b m)"
    by (simp add: get_float_def float_or_0_def)
  then show ?thesis by (rule py_float_nonneg)
qed

subsection \<open>One decimal place\<close>

lemma is_digit_digit_char: "0 \<le> k \<Longrightarrow> k < 10 \<Longrightarrow> is_digit (digit_char k)"
  by (simp add: is_digit_def digit_char_def)

lemma str_nat_digits: "0 \<le> n \<Longrightarrow> str_nat n \<noteq> [] \<and> list_all is_digit (str_nat n)"
proof (induction n rule: str_nat.induct)
  case (1 n)
  show ?case
  proof (cases "n < 10")
    case True
    with "1.prems" show ?thesis
      by (subst (1 2) str_nat.simps) (simp add: is_digit_digit_char)
  next
    case False
    with "1.prems" have "0 \<le> n div 10" by simp
    with "1.IH" False have IH: "list_all is_digit (str_nat (n div 10))" by simp
    have "is_digit (digit_char (n mod 10))" by (rule is_digit_digit_char) simp_all
    with IH False show ?thesis
      by (subst (1 2) str_nat.simps) simp
  qed
qed

lemma round_half_even_nonneg: "0 \<le> x \<Longrightarrow> 0 \<le> round_half_even x"
  by (auto simp: round_half_even_def Let_def)

lemma format_1f_shape:
  assumes "0 \<le> m"
  shows "\<exists>ds d. format_1f (Finite s m) = (if s then ''-'' else '''') @ ds @ [CHR ''.'', d] \<and>
           ds \<noteq> [] \<and> list_all is_digit ds \<and> is_digit d"
proof -
  let ?n = "round_half_even (m * 10)"
  from assms have n: "0 \<le> ?n" by (intro round_half_even_nonneg) simp
  then have "0 \<le> ?n div 10" by simp
  then have d: "str_nat (?n div 10) \<noteq> [] \<and> list_all is_digit (str_nat (?n div 10))"
    by (rule str_nat_digits)
  have "is_digit (digit_char (?n mod 10))" by (rule is_digit_digit_char) simp_all
  with d show ?thesis by (simp add: Let_def)
qed

subsection \<open>The lines\<close>

lemma format_lines_finite:
  assumes "r_sfi r = Finite s m"
  shows "format_lines r now =
     Inr ([''DL2HT Solarbericht - '' @ now,
           ''SFI '' @ str_int (trunc (fval (r_sfi r))) @ '' / SN '' @ r_sn r @ '' - ''
             @ fst (classify_sfi (r_sfi r)),
           ''A='' @ str_int (r_a r) @ '', K='' @ str_int (r_k r) @ '' - ''
             @ fst (classify_k (r_k r)),
           ''Aurora-Index '' @ format_1f (r_aurora r) @ '' - ''
             @ fst (classify_aurora (r_aurora r)),
           ''X-Ray '' @ xray_or_na (r_xray r) @ '' - '' @ fst (classify_xray (r_xray r)),
           ''Geomag: '' @ r_geomag r @ '', Rauschpegel: '' @ r_sig_noise r],
          [''DL2HT Solar Report - '' @ now,
           ''SFI '' @ str_int (trunc (fval (r_sfi r))) @ '' / SSN '' @ r_sn r @ '' - ''
             @ snd (classify_sfi (r_sfi r)),
           ''A='' @ str_int (r_a r) @ '', K='' @ str_int (r_k r) @ '' - ''
             @ snd (classify_k (r_k r)),
           ''Aurora index '' @ format_1f (r_aurora r) @ '' - ''
             @ snd (classify_aurora (r_aurora r)),
           ''X-ray '' @ xray_or_na (r_xray r) @ '' - '' @ snd (classify_xray (r_xray r)),
           ''Geomag: '' @ r_geomag r @ '', Noise level: '' @ r_sig_noise r])"
  using assms by (simp add: format_lines_def split_beta)

lemma float_3_8_truncated:
  "(case py_float ''3.8'' of Inl e \<Rightarrow> Inl e | Inr x \<Rightarrow> py_int x) = Inr 3"
  by code_simp

lemma get_int_3_8: "safe_get item t ''0'' = ''3.8'' \<Longrightarrow> get_int item t = Inr 3"
  using float_3_8_truncated by (simp add: get_int_def get_float_def float_or_0_def)

lemma trunc_examples: "trunc (38 / 10) = 3 \<and> trunc (- 38 / 10) = - 3"
  by (simp add: trunc_def)

text \<open>
  C7, as the code has it. For every report whose solar flux is finite and every time
  stamp, the formatter returns six German and six English lines in the order header with
  time stamp, SFI and sunspots with classification, A and K with classification, aurora
  with classification, X-ray with classification (\<open>n/a\<close> for an empty class), geomagnetic
  field and noise. The solar flux is shown truncated to an integer; the A and K indices
  are floats truncated to integers on extraction (3.8 becomes 3); a finite aurora index,
  whose magnitude is never negative, is shown as digits, a point and one digit.
\<close>

theorem format_lines_six:
  assumes "r_sfi r = Finite s m"
  shows "format_lines r now =
     Inr ([''DL2HT Solarbericht - '' @ now,
           ''SFI '' @ str_int (trunc (fval (r_sfi r))) @ '' / SN '' @ r_sn r @ '' - ''
             @ fst (classify_sfi (r_sfi r)),
           ''A='' @ str_int (r_a r) @ '', K='' @ str_int (r_k r) @ '' - ''
             @ fst (classify_k (r_k r)),
           ''Aurora-Index '' @ format_1f (r_aurora r) @ '' - ''
             @ fst (classify_aurora (r_aurora r)),
           ''X-Ray '' @ xray_or_na (r_xray r) @ '' - '' @ fst (classify_xray (r_xray r)),
           ''Geomag: '' @ r_geomag r @ '', Rauschpegel: '' @ r_sig_noise r],
          [''DL2HT Solar Report - '' @ now,
           ''SFI '' @ str_int (trunc (fval (r_sfi r))) @ '' / SSN '' @ r_sn r @ '' - ''
             @ snd (classify_sfi (r_sfi r)),
           ''A='' @ str_int (r_a r) @ '', K='' @ str_int (r_k r) @ '' - ''
             @ snd (classify_k (r_k r)),
           ''Aurora index '' @ format_1f (r_aurora r) @ '' - ''
             @ snd (classify_aurora (r_aurora r)),
           ''X-ray '' @ xray_or_na (r_xray r) @ '' - '' @ snd (classify_xray (r_xray r)),
           ''Geomag: '' @ r_geomag r @ '', Noise level: '' @ r_sig_noise r]) \<and>
     map_sum id (\<lambda>(de, en). (length de, length en)) (format_lines r now) = Inr (6, 6) \<and>
     xray_or_na '''' = ''n/a'' \<and>
     (r_xray r \<noteq> [] \<longrightarrow> xray_or_na (r_xray r) = r_xray r) \<and>
     (\<forall>b v. r_aurora r = Finite b v \<and> 0 \<le> v \<longrightarrow>
        (\<exists>ds d. format_1f (r_aurora r) = (if b then ''-'' else '''') @ ds @ [CHR ''.'', d] \<and>
           ds \<noteq> [] \<and> list_all is_digit ds \<and> is_digit d)) \<and>
     (\<forall>item b v. get_float item ''aurora'' = Inr (Finite b v) \<longrightarrow> 0 \<le> v) \<and>
     (\<forall>item t. safe_get item t ''0'' = ''3.8'' \<longrightarrow> get_int item t = Inr 3) \<and>
     (\<forall>item t x. get_float item t = Inr x \<longrightarrow> get_int item t = py_int x) \<and>
     py_int (r_sfi r) = Inr (trunc (fval (r_sfi r))) \<and>
     trunc (38 / 10) = 3 \<and> trunc (- 38 / 10) = - 3"
proof -
  note 1 = format_lines_finite [OF assms, of now]
  have 2: "map_sum id (\<lambda>(de, en). (length de, length en)) (format_lines r now) = Inr (6, 6)"
    by (simp add: 1)
  have 3: "xray_or_na '''' = ''n/a''" by (simp add: xray_or_na_def)
  have 4: "r_xray r \<noteq> [] \<longrightarrow> xray_or_na (r_xray r) = r_xray r" by (simp add: xray_or_na_def)
  have 5: "\<forall>b v. r_aurora r = Finite b v \<and> 0 \<le> v \<longrightarrow>
        (\<exists>ds d. format_1f (r_aurora r) = (if b then ''-'' else '''') @ ds @ [CHR ''.'', d] \<and>
           ds \<noteq> [] \<and> list_all is_digit ds \<and> is_digit d)"
  proof (intro allI impI)
    fix b v
    assume a: "r_aurora r = Finite b v \<and> 0 \<le> v"
    then have "0 \<le> v" by simp
    from format_1f_shape [OF this, of b] a
    show "\<exists>ds d. format_1f (r_aurora r) = (if b then ''-'' else '''') @ ds @ [CHR ''.'', d] \<and>
           ds \<noteq> [] \<and> list_all is_digit ds \<and> is_digit d"
      by simp
  qed
  have 6: "\<forall>item b v. get_float item ''aurora'' = Inr (Finite b v) \<longrightarrow> 0 \<le> v"
    using get_float_nonneg by blast
  have 7: "\<forall>item t. safe_get item t ''0'' = ''3.8'' \<longrightarrow> get_int item t = Inr 3"
    using get_int_3_8 by blast
  have 8: "\<forall>item t x. get_float item t = Inr x \<longrightarrow> get_int item t = py_int x"
    by (simp add: get_int_def)
  have 9: "py_int (r_sfi r) = Inr (trunc (fval (r_sfi r)))"
    using assms by simp
  from trunc_examples have 10: "trunc (38 / 10) = 3" and 11: "trunc (- 38 / 10) = - 3"
    by simp_all
  show ?thesis
    using 1 2 3 4 5 6 7 8 9 10 11 by (intro conjI)
qed

theorem format_lines_six_witness:
  "r_sfi synthetic_report = Finite False 150 \<and>
   map_sum id (\<lambda>(de, en). (length de, length en))
     (format_lines synthetic_report ''03 Nov 2026, 17:24 UTC'') = Inr (6, 6) \<and>
   py_int (r_sfi synthetic_report) = Inr 150"
proof -
  have 1: "r_sfi synthetic_report = Finite False 150" by (simp add: synthetic_report_def)
  from format_lines_six [OF 1, of "''03 Nov 2026, 17:24 UTC''"] 1 show ?thesis
    by (simp add: trunc_def)
qed

text \<open>The claim C7 as stated fails on a report whose solar flux is infinite, which the
  feed text \<open>inf\<close> gives: \<open>int(sfi)\<close> raises \<open>OverflowError\<close> and no line is produced.\<close>

theorem format_lines_inf_counterexample:
  "format_lines inf_report ''03 Nov 2026, 17:24 UTC'' = Inl OverflowError \<and>
   py_float ''inf'' = Inr (Infinity False) \<and> format_1f (Infinity False) = ''inf''"
proof -
  have "py_float ''inf'' = Inr (Infinity False)" by code_simp
  then show ?thesis by (simp add: format_lines_def inf_report_def split_beta)
qed

section \<open>Properties of the run\<close>

lemma synthetic_doc_lines:
  "main_lines synthetic_doc now =
   Inr ([''DL2HT Solarbericht - '' @ now,
         ''SFI 150 / SN 120 - sehr gute 20-10m Bedingungen'',
         ''A=2, K=3 - Magnetfeld leicht unruhig'',
         ''Aurora-Index 6.2 - moegliche Aurora-Aktivitaet'',
         ''X-Ray C4 - C-Flare Aktivitaet'',
         ''Geomag: Active, Rauschpegel: S1''],
        [''DL2HT Solar Report - '' @ now,
         ''SFI 150 / SSN 120 - very good 20-10m conditions'',
         ''A=2, K=3 - geomagnetic field unsettled'',
         ''Aurora index 6.2 - possible auroral activity'',
         ''X-ray C4 - C-flare activity'',
         ''Geomag: Active, Noise level: S1''])"
  by code_simp

lemma synthetic_flat_doc_lines: "main_lines synthetic_flat_doc now = main_lines synthetic_doc now"
  by code_simp

text \<open>
  C8. For the synthetic record (solarflux 150, sunspots 120, aindex 2, kindex 3, xray C4,
  aurora 6.2, geomagfield Active, signalnoise S1), at either place of the document and
  for every time stamp, the second German line is
  \<open>SFI 150 / SN 120 - sehr gute 20-10m Bedingungen\<close> and the fourth English line is
  \<open>Aurora index 6.2 - possible auroral activity\<close>.
\<close>

theorem synthetic_feed_lines:
  "map_sum id (\<lambda>(de, en). (de ! 1, en ! 3)) (main_lines synthetic_doc now) =
     Inr (''SFI 150 / SN 120 - sehr gute 20-10m Bedingungen'',
          ''Aurora index 6.2 - possible auroral activity'') \<and>
   map_sum id (\<lambda>(de, en). (de ! 1, en ! 3)) (main_lines synthetic_flat_doc now) =
     Inr (''SFI 150 / SN 120 - sehr gute 20-10m Bedingungen'',
          ''Aurora index 6.2 - possible auroral activity'') \<and>
   main_lines synthetic_doc now =
   Inr ([''DL2HT Solarbericht - '' @ now,
         ''SFI 150 / SN 120 - sehr gute 20-10m Bedingungen'',
         ''A=2, K=3 - Magnetfeld leicht unruhig'',
         ''Aurora-Index 6.2 - moegliche Aurora-Aktivitaet'',
         ''X-Ray C4 - C-Flare Aktivitaet'',
         ''Geomag: Active, Rauschpegel: S1''],
        [''DL2HT Solar Report - '' @ now,
         ''SFI 150 / SSN 120 - very good 20-10m conditions'',
         ''A=2, K=3 - geomagnetic field unsettled'',
         ''Aurora index 6.2 - possible auroral activity'',
         ''X-ray C4 - C-flare activity'',
         ''Geomag: Active, Noise level: S1''])"
  by (simp add: synthetic_flat_doc_lines synthetic_doc_lines)

lemma example_paths:
  "find_path synthetic_doc [''channel'', ''item'', ''solardata''] =
     Some (Element ''solardata'' None synthetic_fields)"
  "find_path synthetic_flat_doc [''channel'', ''item'', ''solardata''] = None"
  "find_path synthetic_flat_doc [''channel'', ''item''] =
     Some (Element ''item'' None synthetic_fields)"
  "find_path empty_channel_doc [''channel'', ''item'', ''solardata''] = None"
  "find_path empty_channel_doc [''channel'', ''item''] = None"
  by code_simp+

text \<open>
  C9. The record node is the first element at \<open>channel/item/solardata\<close> when there is
  one; only when there is none, it is the first element at \<open>channel/item\<close>; and when
  there is none either, the run ends with \<open>SystemExit\<close> and its message, which is exit
  status 1, before any report or line exists and so before the image is drawn or saved.
\<close>

theorem locate_record_order:
  "(find_path doc [''channel'', ''item'', ''solardata''] = Some item \<longrightarrow>
      locate_record doc = Inr item) \<and>
   (find_path doc [''channel'', ''item'', ''solardata''] = None \<and>
    find_path doc [''channel'', ''item''] = Some item \<longrightarrow> locate_record doc = Inr item) \<and>
   (find_path doc [''channel'', ''item'', ''solardata''] = None \<and>
    find_path doc [''channel'', ''item''] = None \<longrightarrow>
      locate_record doc = Inl (SystemExit ''Konnte solardata-Element nicht finden'') \<and>
      main_lines doc now = Inl (SystemExit ''Konnte solardata-Element nicht finden'') \<and>
      run_outcome (main_lines doc now) = Exited 1 ''Konnte solardata-Element nicht finden'')"
  by (simp add: locate_record_def main_lines_def)

theorem locate_record_order_witness:
  "find_path synthetic_doc [''channel'', ''item'', ''solardata''] =
     Some (Element ''solardata'' None synthetic_fields) \<and>
   locate_record synthetic_doc = Inr (Element ''solardata'' None synthetic_fields) \<and>
   find_path synthetic_flat_doc [''channel'', ''item'', ''solardata''] = None \<and>
   find_path synthetic_flat_doc [''channel'', ''item''] =
     Some (Element ''item'' None synthetic_fields) \<and>
   locate_record synthetic_flat_doc = Inr (Element ''item'' None synthetic_fields) \<and>
   find_path empty_channel_doc [''channel'', ''item'', ''solardata''] = None \<and>
   find_path empty_channel_doc [''channel'', ''item''] = None \<and>
   run_outcome (main_lines empty_channel_doc ''03 Nov 2026, 17:24 UTC'') =
     Exited 1 ''Konnte solardata-Element nicht finden''"
  using
    locate_record_order [of synthetic_doc "Element ''solardata'' None synthetic_fields"]
    locate_record_order [of synthetic_flat_doc "Element ''item'' None synthetic_fields"]
    locate_record_order [of empty_channel_doc _ "''03 Nov 2026, 17:24 UTC''"]
  by (simp add: example_paths)

end
